theory Spec2Isabelle
  imports Main
begin

section \<open>OutfitCast: seed, synthetic weather, hourly forecast and outfit rules\<close>

text \<open>
  The development embeds the four core functions of \<^verbatim>\<open>OutfitCast.py\<close>:
  \<^verbatim>\<open>city_to_seed\<close>, \<^verbatim>\<open>synthesize_weather\<close>, \<^verbatim>\<open>generate_hourly_forecast\<close> and
  \<^verbatim>\<open>outfit_logic_from_weather\<close>.

  Python's unbounded integers are \<^typ>\<open>int\<close>. A Python \<^verbatim>\<open>str\<close> is a \<^typ>\<open>string\<close> holding
  the UTF-8 bytes of the text, so \<^verbatim>\<open>encode("utf-8")\<close> is the identity on the representation
  and a character outside ASCII is written as its bytes. The operations the source applies to
  strings (concatenation, equality, substring test, replace, split at a separator, strip)
  act on code points in Python and on bytes here; on UTF-8 text with the ASCII and
  three-byte separators of the source the two agree.
\<close>

subsection \<open>Text helpers\<close>

definition deg :: string where
  \<comment> \<open>the degree sign U+00B0\<close>
  "deg = [CHR 0xC2, CHR 0xB0]"

definition arrow :: string where
  \<comment> \<open>the rightwards arrow U+2192\<close>
  "arrow = [CHR 0xE2, CHR 0x86, CHR 0x92]"

definition emdash :: string where
  \<comment> \<open>the em dash U+2014\<close>
  "emdash = [CHR 0xE2, CHR 0x80, CHR 0x94]"

definition digit_char :: "nat \<Rightarrow> char" where
  \<comment> \<open>the decimal digit of a value below 10\<close>
  "digit_char d = ''0123456789'' ! d"

fun str_nat :: "nat \<Rightarrow> string" where
  "str_nat n = (if n < 10 then [digit_char n] else str_nat (n div 10) @ [digit_char (n mod 10)])"

declare str_nat.simps [simp del]

definition str_int :: "int \<Rightarrow> string" where
  \<comment> \<open>\<^verbatim>\<open>str(n)\<close>, the rendering an f-string gives an integer\<close>
  "str_int n = (if n < 0 then CHR ''-'' # str_nat (nat (- n)) else str_nat (nat n))"

definition startswith :: "string \<Rightarrow> string \<Rightarrow> bool" where
  \<comment> \<open>\<^verbatim>\<open>s.startswith(p)\<close>, with the prefix first\<close>
  "startswith p s = (take (length p) s = p)"

fun contains :: "string \<Rightarrow> string \<Rightarrow> bool" where
  \<comment> \<open>\<^verbatim>\<open>sub in s\<close>\<close>
  "contains sub [] = (sub = [])"
| "contains sub (c # cs) = (startswith sub (c # cs) \<or> contains sub cs)"

fun replace_from :: "string \<Rightarrow> string \<Rightarrow> string \<Rightarrow> string" where
  \<comment> \<open>left-to-right replacement of the non-overlapping occurrences of a non-empty \<open>old\<close>\<close>
  "replace_from old new [] = []"
| "replace_from old new (c # cs) =
     (if startswith old (c # cs) then new @ replace_from old new (drop (length old - 1) cs)
      else c # replace_from old new cs)"

definition py_replace :: "string \<Rightarrow> string \<Rightarrow> string \<Rightarrow> string" where
  \<comment> \<open>\<^verbatim>\<open>s.replace(old, new)\<close>; an empty \<open>old\<close> matches before every character and at the end\<close>
  "py_replace old new s =
     (if old = [] then new @ concat (map (\<lambda>c. c # new) s) else replace_from old new s)"

definition strip_chars :: "string \<Rightarrow> string \<Rightarrow> string" where
  \<comment> \<open>\<^verbatim>\<open>s.strip(chars)\<close>: drops leading and trailing characters that occur in \<open>chars\<close>\<close>
  "strip_chars chars s =
     rev (dropWhile (\<lambda>c. c \<in> set chars) (rev (dropWhile (\<lambda>c. c \<in> set chars) s)))"

definition whitespace :: string where
  \<comment> \<open>the ASCII characters \<^verbatim>\<open>str.isspace\<close> accepts: tab to carriage return, 0x1C to 0x1F, space\<close>
  "whitespace = [CHR 0x09, CHR 0x0A, CHR 0x0B, CHR 0x0C, CHR 0x0D,
                 CHR 0x1C, CHR 0x1D, CHR 0x1E, CHR 0x1F, CHR '' '']"

definition strip :: "string \<Rightarrow> string" where
  \<comment> \<open>\<^verbatim>\<open>s.strip()\<close> on text whose only white space is ASCII\<close>
  "strip s = strip_chars whitespace s"

definition lstrip_chars :: "string \<Rightarrow> string \<Rightarrow> string" where
  \<comment> \<open>\<^verbatim>\<open>s.lstrip(chars)\<close>\<close>
  "lstrip_chars chars s = dropWhile (\<lambda>c. c \<in> set chars) s"

fun split_head :: "string \<Rightarrow> string \<Rightarrow> string" where
  \<comment> \<open>\<^verbatim>\<open>s.split(sep)[0]\<close> for a non-empty \<open>sep\<close>: the text before its first occurrence\<close>
  "split_head sep [] = []"
| "split_head sep (c # cs) = (if startswith sep (c # cs) then [] else c # split_head sep cs)"

fun join :: "string \<Rightarrow> string list \<Rightarrow> string" where
  \<comment> \<open>\<^verbatim>\<open>sep.join(parts)\<close>\<close>
  "join sep [] = []"
| "join sep [p] = p"
| "join sep (p # q # ps) = p @ sep @ join sep (q # ps)"

subsection \<open>Seed deriver\<close>

datatype py_error = ValueError | KeyError string

definition hex_value :: "char \<Rightarrow> nat option" where
  \<comment> \<open>the value of one hexadecimal digit, either case\<close>
  "hex_value c =
     (let n = (of_char c :: nat) in
      if 48 \<le> n \<and> n \<le> 57 then Some (n - 48)
      else if 97 \<le> n \<and> n \<le> 102 then Some (n - 87)
      else if 65 \<le> n \<and> n \<le> 70 then Some (n - 55)
      else None)"

fun hex_accum :: "int \<Rightarrow> string \<Rightarrow> py_error + int" where
  "hex_accum acc [] = Inr acc"
| "hex_accum acc (c # cs) =
     (case hex_value c of
        None \<Rightarrow> Inl ValueError
      | Some d \<Rightarrow> hex_accum (16 * acc + int d) cs)"

definition int_base16 :: "string \<Rightarrow> py_error + int" where
  \<comment> \<open>\<^verbatim>\<open>int(s, 16)\<close> on a string of hexadecimal digits, the only strings a hex digest
      yields; the empty string and a character that is no digit raise \<^verbatim>\<open>ValueError\<close>\<close>
  "int_base16 s = (if s = [] then Inl ValueError else hex_accum 0 s)"

definition hex_char :: "nat \<Rightarrow> char" where
  \<comment> \<open>the lower-case hexadecimal digit of a value below 16\<close>
  "hex_char d = ''0123456789abcdef'' ! d"

definition hexdigest :: "string \<Rightarrow> string" where
  \<comment> \<open>\<^verbatim>\<open>.hexdigest()\<close>: two lower-case hexadecimal digits for each byte of the digest\<close>
  "hexdigest bytes =
     concat (map (\<lambda>b. [hex_char (of_char b div 16), hex_char (of_char b mod 16)]) bytes)"

definition city_to_seed :: "(string \<Rightarrow> string) \<Rightarrow> string option \<Rightarrow> py_error + int" where
  \<comment> \<open>lines 100-108. \<open>sha256\<close> stands for \<^verbatim>\<open>hashlib.sha256(_).digest()\<close>, bytes to bytes,
      which is library code and a parameter here. \<open>None\<close> is Python's \<^verbatim>\<open>None\<close>: the
      caller stores it for an empty selection, and \<^verbatim>\<open>not city\<close> holds of it as of \<^verbatim>\<open>""\<close>.\<close>
  "city_to_seed sha256 city =
     (case city of
        None \<Rightarrow> Inr 0
      | Some c \<Rightarrow>
          if c = [] then Inr 0
          else let h = hexdigest (sha256 c) in int_base16 (take 8 h))"

subsection \<open>Weather synthesizer\<close>

record weather =
  temp_c :: int
  humidity :: int
  precip_chance :: int
  wind_kmh :: int
  condition :: string

definition select_condition :: "int \<Rightarrow> int \<Rightarrow> int \<Rightarrow> int \<Rightarrow> string" where
  \<comment> \<open>lines 123-137, the condition chain, in the order temperature, humidity,
      precipitation chance, wind\<close>
  "select_condition t hum precip wind =
     (if precip > 60 then (if wind > 25 then ''storm'' else ''rain'')
      else if precip > 25 then (if hum > 60 then ''rain'' else ''partly'')
      else if t \<le> 5 then ''snow''
      else if hum > 80 \<and> t < 20 then ''mist''
      else if t \<ge> 30 then ''clear''
      else if t \<ge> 22 then ''partly''
      else ''cloudy'')"

definition weather_of_seed :: "int \<Rightarrow> weather" where
  \<comment> \<open>lines 117-145: the body of \<^verbatim>\<open>synthesize_weather\<close> after the seed is known;
      \<^verbatim>\<open>>>\<close> on a Python integer is \<^const>\<open>drop_bit\<close>, \<^verbatim>\<open>%\<close> with a positive
      modulus is \<open>mod\<close>\<close>
  "weather_of_seed seed =
     (let t = 12 + (seed mod 26);
          hum = 30 + (drop_bit 3 seed mod 71);
          precip = drop_bit 6 seed mod 101;
          wind = 5 + (drop_bit 10 seed mod 36)
      in \<lparr>temp_c = t, humidity = hum, precip_chance = precip, wind_kmh = wind,
          condition = select_condition t hum precip wind\<rparr>)"

definition synthesize_weather :: "(string \<Rightarrow> string) \<Rightarrow> string option \<Rightarrow> py_error + weather" where
  \<comment> \<open>lines 111-145\<close>
  "synthesize_weather sha256 city =
     (case city_to_seed sha256 city of
        Inl e \<Rightarrow> Inl e
      | Inr seed \<Rightarrow> Inr (weather_of_seed seed))"

subsection \<open>Hourly forecast generator\<close>

type_synonym datetime = nat
  \<comment> \<open>a naive local clock reading, as the microseconds elapsed since a local midnight;
      the timeline is unbounded, the calendar's last year 9999 is not represented\<close>

definition add_hours :: "datetime \<Rightarrow> nat \<Rightarrow> datetime" where
  \<comment> \<open>\<^verbatim>\<open>now + timedelta(hours=i)\<close>\<close>
  "add_hours t i = t + i * 3600000000"

definition hour_of :: "datetime \<Rightarrow> nat" where
  \<comment> \<open>the \<^verbatim>\<open>hour\<close> field, 0 to 23\<close>
  "hour_of t = (t div 3600000000) mod 24"

definition zero_pad2 :: "nat \<Rightarrow> string" where
  "zero_pad2 n = (if n < 10 then CHR ''0'' # str_nat n else str_nat n)"

definition strftime_I_p :: "datetime \<Rightarrow> string" where
  \<comment> \<open>\<^verbatim>\<open>strftime("%I %p")\<close> in the default C locale: the hour of the 12-hour clock in
      two digits, a space, AM or PM\<close>
  "strftime_I_p t =
     (let h = hour_of t; h12 = (if h mod 12 = 0 then 12 else h mod 12)
      in zero_pad2 h12 @ '' '' @ (if h < 12 then ''AM'' else ''PM''))"

definition variation_selector :: string where
  \<comment> \<open>U+FE0F, which follows most of the symbols below\<close>
  "variation_selector = [CHR 0xEF, CHR 0xB8, CHR 0x8F]"

definition WEATHER_EMOJI :: "(string \<times> string) list" where
  \<comment> \<open>lines 70-78, each symbol as its UTF-8 bytes\<close>
  "WEATHER_EMOJI =
     [(''clear'', [CHR 0xE2, CHR 0x98, CHR 0x80] @ variation_selector),
      (''partly'', [CHR 0xE2, CHR 0x9B, CHR 0x85]),
      (''cloudy'', [CHR 0xE2, CHR 0x98, CHR 0x81] @ variation_selector),
      (''rain'', [CHR 0xF0, CHR 0x9F, CHR 0x8C, CHR 0xA7] @ variation_selector),
      (''storm'', [CHR 0xE2, CHR 0x9B, CHR 0x88] @ variation_selector),
      (''snow'', [CHR 0xE2, CHR 0x9D, CHR 0x84] @ variation_selector),
      (''mist'', [CHR 0xF0, CHR 0x9F, CHR 0x8C, CHR 0xAB] @ variation_selector)]"

definition mild_emoji :: string where
  \<comment> \<open>the default of line 180, U+1F324 U+FE0F\<close>
  "mild_emoji = [CHR 0xF0, CHR 0x9F, CHR 0x8C, CHR 0xA4] @ variation_selector"

definition subscript :: "(string \<times> string) list \<Rightarrow> string \<Rightarrow> py_error + string" where
  \<comment> \<open>\<^verbatim>\<open>d[k]\<close>, which raises \<^verbatim>\<open>KeyError\<close> on a missing key\<close>
  "subscript d k = (case map_of d k of None \<Rightarrow> Inl (KeyError k) | Some v \<Rightarrow> Inr v)"

definition dict_get :: "(string \<times> string) list \<Rightarrow> string \<Rightarrow> string \<Rightarrow> string" where
  \<comment> \<open>\<^verbatim>\<open>d.get(k, default)\<close>\<close>
  "dict_get d k dflt = (case map_of d k of None \<Rightarrow> dflt | Some v \<Rightarrow> v)"

record hourly_slot =
  hour :: string
  temp :: int
  emoji :: string

definition pick_emoji :: "string \<Rightarrow> int \<Rightarrow> int \<Rightarrow> py_error + string" where
  \<comment> \<open>lines 166-180, for loop index \<open>i\<close> and \<open>seed_offset\<close>\<close>
  "pick_emoji base_condition seed_offset i =
     (let cond_variation_index = (i + seed_offset) mod 5 in
      if (base_condition = ''rain'' \<or> base_condition = ''storm'') \<and> i mod 2 = 0
        then subscript WEATHER_EMOJI ''rain''
      else if base_condition = ''clear''
        then (if cond_variation_index < 3 then subscript WEATHER_EMOJI ''clear''
              else subscript WEATHER_EMOJI ''partly'')
      else if base_condition = ''partly'' then subscript WEATHER_EMOJI ''partly''
      else if base_condition = ''cloudy'' then subscript WEATHER_EMOJI ''cloudy''
      else if base_condition = ''mist'' then subscript WEATHER_EMOJI ''mist''
      else if base_condition = ''snow'' then subscript WEATHER_EMOJI ''snow''
      else Inr (dict_get WEATHER_EMOJI base_condition mild_emoji))"

fun hourly_loop ::
  "datetime \<Rightarrow> int \<Rightarrow> string \<Rightarrow> int \<Rightarrow> nat list \<Rightarrow> hourly_slot list \<Rightarrow> py_error + hourly_slot list"
where
  \<comment> \<open>lines 157-182: one iteration for each remaining index, appending to \<open>hourly\<close>\<close>
  "hourly_loop now base_temp base_condition seed_offset [] hourly = Inr hourly"
| "hourly_loop now base_temp base_condition seed_offset (i # rest) hourly =
     (let hour_time = lstrip_chars ''0'' (strftime_I_p (add_hours now i));
          t = base_temp + ((int i + seed_offset) mod 7) - 3
      in case pick_emoji base_condition seed_offset (int i) of
           Inl e \<Rightarrow> Inl e
         | Inr em \<Rightarrow>
             hourly_loop now base_temp base_condition seed_offset rest
               (hourly @ [\<lparr>hour = hour_time, temp = t, emoji = em\<rparr>]))"

definition generate_hourly_forecast ::
  "datetime \<Rightarrow> int \<Rightarrow> string \<Rightarrow> py_error + hourly_slot list"
where
  \<comment> \<open>lines 148-184; \<open>now\<close> is what \<^verbatim>\<open>datetime.now()\<close> returns on line 153\<close>
  "generate_hourly_forecast now base_temp base_condition =
     (let seed_offset = base_temp mod 7
      in hourly_loop now base_temp base_condition seed_offset [0 ..< 6] [])"

subsection \<open>Outfit rule engine\<close>

record outfit_set =
  top_wear :: string
  bottom :: string
  outerwear :: string
  footwear :: string
  accessories :: string

definition outfit :: "string \<Rightarrow> string \<Rightarrow> string \<Rightarrow> string \<Rightarrow> string \<Rightarrow> outfit_set" where
  \<comment> \<open>lines 204-211; the field \<^verbatim>\<open>top\<close> is \<open>top_wear\<close> here\<close>
  "outfit t b outer f a =
     \<lparr>top_wear = t, bottom = b, outerwear = outer, footwear = f, accessories = a\<rparr>"

record engine_state =
  v_matches :: int
  v_primary :: outfit_set
  v_alt1 :: outfit_set
  v_alt2 :: outfit_set
  v_reasons :: "string list"

record recommendation =
  primary :: outfit_set
  alternates :: "outfit_set list"
  confidence :: int
  reasoning :: string
  bullets :: "string list"

definition band_rules :: "weather \<Rightarrow> engine_state" where
  \<comment> \<open>lines 214-243: the locals \<^verbatim>\<open>matches\<close>, \<^verbatim>\<open>primary\<close>, \<^verbatim>\<open>alt1\<close>, \<^verbatim>\<open>alt2\<close>,
      \<^verbatim>\<open>reasons\<close> after the first chain, starting from \<^verbatim>\<open>matches = 0\<close> and \<^verbatim>\<open>reasons = []\<close>\<close>
  "band_rules w =
     (let t = temp_c w; hum = humidity w; precip = precip_chance w in
      if t \<ge> 30 \<and> hum \<ge> 65 then
        \<lparr>v_matches = 0 + 2,
         v_primary = outfit ''Breathable cotton t-shirt'' ''Light cotton shorts'' ''None''
                       ''Sandals'' ''Cap'',
         v_alt1 = outfit ''Linen shirt'' ''Chino shorts'' ''Light scarf'' ''Slip-ons''
                    ''Sunglasses'',
         v_alt2 = outfit ''Moisture-wicking tee'' ''Athletic shorts'' ''None'' ''Sport sandals''
                    (if precip > 30 then ''Small umbrella'' else ''Cap''),
         v_reasons = [] @ [''High temperature ('' @ str_int t @ '' '' @ deg
                       @ ''C) and humidity ('' @ str_int hum @ ''%) '' @ arrow
                       @ '' breathable fabrics'']\<rparr>
      else if 22 \<le> t \<and> t < 30 then
        \<lparr>v_matches = 0 + 2,
         v_primary = outfit ''Light long-sleeve tee'' ''Chinos'' ''Light layer (cardigan)''
                       ''Sneakers'' ''Watch'',
         v_alt1 = outfit ''Polo shirt'' ''Jeans'' ''Light jacket'' ''Casual sneakers''
                    ''Sunglasses'',
         v_alt2 = outfit ''Button-up shirt'' ''Tailored shorts'' ''Light hoodie'' ''Loafers''
                    ''Cap'',
         v_reasons = [] @ [''Moderate temperature ('' @ str_int t @ '' '' @ deg @ ''C) ''
                       @ arrow @ '' light layers'']\<rparr>
      else if 18 \<le> t \<and> t < 22 then
        \<lparr>v_matches = 0 + 2,
         v_primary = outfit ''Long-sleeve shirt'' ''Jeans'' ''Light jacket'' ''Sneakers''
                       ''Beanie (optional)'',
         v_alt1 = outfit ''Thermal tee'' ''Corduroy pants'' ''Denim jacket'' ''Ankle boots''
                    ''Scarf'',
         v_alt2 = outfit ''Sweater'' ''Chinos'' ''Trench coat'' ''Casual boots'' ''Watch'',
         v_reasons = [] @ [''Cool temperature ('' @ str_int t @ '' '' @ deg @ ''C) ''
                       @ arrow @ '' consider light outerwear'']\<rparr>
      else
        \<lparr>v_matches = 0 + 3,
         v_primary = outfit ''Thermal top'' ''Warm trousers'' ''Warm coat'' ''Boots''
                       ''Scarf & gloves'',
         v_alt1 = outfit ''Wool sweater'' ''Jeans'' ''Puffer jacket'' ''Insulated boots''
                    ''Beanie'',
         v_alt2 = outfit ''Turtleneck'' ''Wool skirt + tights'' ''Overcoat'' ''Knee boots''
                    ''Gloves'',
         v_reasons = [] @ [''Cold temperature ('' @ str_int t @ '' '' @ deg @ ''C) ''
                       @ arrow @ '' warm outerwear recommended'']\<rparr>)"

definition rain_logic :: "weather \<Rightarrow> engine_state \<Rightarrow> engine_state" where
  \<comment> \<open>lines 246-252; every outfit has a string under \<^verbatim>\<open>outerwear\<close>, so the membership
      test in \<^verbatim>\<open>(None, "None")\<close> is the comparison with the text \<^verbatim>\<open>"None"\<close>\<close>
  "rain_logic w s =
     (let precip = precip_chance w in
      if precip > 40 then
        let p1 = (v_primary s)\<lparr>accessories :=
                   strip_chars '', '' (accessories (v_primary s) @ '', Umbrella'')\<rparr>;
            p2 = (if outerwear p1 = ''None'' then p1\<lparr>outerwear := ''Packable raincoat''\<rparr>
                  else p1)
        in s\<lparr>v_matches := v_matches s + 2,
             v_primary := p2,
             v_reasons := v_reasons s @ [''High precipitation chance ('' @ str_int precip
                            @ ''%) '' @ arrow @ '' carry umbrella or wear raincoat'']\<rparr>
      else s)"

definition humidity_bias :: "weather \<Rightarrow> engine_state \<Rightarrow> engine_state" where
  \<comment> \<open>lines 255-259\<close>
  "humidity_bias w s =
     (let hum = humidity w in
      if hum > 70 then
        let p = v_primary s;
            p1 = p\<lparr>top_wear :=
                   (if contains ''Wool'' (top_wear p)
                    then py_replace ''Wool'' ''Breathable wool-blend'' (top_wear p)
                    else top_wear p)\<rparr>
        in s\<lparr>v_matches := v_matches s + 1,
             v_primary := p1,
             v_reasons := v_reasons s @ [''High humidity ('' @ str_int hum @ ''%) '' @ arrow
                            @ '' prefer breathable fabrics and avoid heavy layers'']\<rparr>
      else s)"

definition wind_consideration :: "weather \<Rightarrow> engine_state \<Rightarrow> engine_state" where
  \<comment> \<open>lines 262-265\<close>
  "wind_consideration w s =
     (let wind = wind_kmh w in
      if wind > 30 then
        s\<lparr>v_matches := v_matches s + 1,
          v_reasons := v_reasons s @ [''Windy ('' @ str_int wind @ '' km/h) '' @ arrow
                         @ '' consider secure footwear and windproof layers'']\<rparr>
      else s)"

definition confidence_score :: "int \<Rightarrow> int \<Rightarrow> int" where
  \<comment> \<open>lines 268-271, from \<^verbatim>\<open>temp\<close> (here \<open>t\<close>) and \<^verbatim>\<open>matches\<close>\<close>
  "confidence_score t m =
     (let c = min 100 (40 + m * 12)
      in if t \<ge> 30 \<or> t < 18 then min 100 (c + 8) else c)"

definition reasoning_line :: "string list \<Rightarrow> string" where
  \<comment> \<open>line 274\<close>
  "reasoning_line reasons =
     join '' and '' (map (\<lambda>s. strip (split_head arrow s)) (take 2 reasons))
       @ '' '' @ emdash @ '' choose accordingly.''"

definition ensure_variation :: "outfit_set \<Rightarrow> outfit_set \<Rightarrow> outfit_set" where
  \<comment> \<open>lines 277-281\<close>
  "ensure_variation base alt =
     (if footwear base = footwear alt \<and> accessories base = accessories alt
      then alt\<lparr>footwear := footwear alt @ '' (alt)''\<rparr>
      else alt)"

definition finish :: "weather \<Rightarrow> engine_state \<Rightarrow> recommendation" where
  \<comment> \<open>lines 267-292: scoring, the summary, the variation check and the returned dictionary\<close>
  "finish w s =
     (let conf = confidence_score (temp_c w) (v_matches s);
          reasoning_text = reasoning_line (v_reasons s);
          alt1 = ensure_variation (v_primary s) (v_alt1 s);
          alt2 = ensure_variation (v_primary s) (v_alt2 s)
      in \<lparr>primary = v_primary s, alternates = [alt1, alt2], confidence = conf,
          reasoning = reasoning_text, bullets = v_reasons s\<rparr>)"

definition outfit_logic_from_weather :: "weather \<Rightarrow> recommendation" where
  \<comment> \<open>lines 188-292\<close>
  "outfit_logic_from_weather w =
     finish w (wind_consideration w (humidity_bias w (rain_logic w (band_rules w))))"

subsection \<open>The composition of the caller\<close>

definition forecast ::
  "(string \<Rightarrow> string) \<Rightarrow> datetime \<Rightarrow> string option
     \<Rightarrow> py_error + weather \<times> recommendation \<times> hourly_slot list"
where
  \<comment> \<open>lines 440-442, the three calls made for a selected city, without the caller's check
      that a city was chosen\<close>
  "forecast sha256 now city =
     (case synthesize_weather sha256 city of
        Inl e \<Rightarrow> Inl e
      | Inr w \<Rightarrow>
          (let outfit_result = outfit_logic_from_weather w
           in (case generate_hourly_forecast now (temp_c w) (condition w) of
                 Inl e \<Rightarrow> Inl e
               | Inr hourly \<Rightarrow> Inr (w, outfit_result, hourly))))"

subsection \<open>Notions of the specification\<close>

text \<open>
  The definitions of this subsection are written from the specification's wording, to be
  compared with the functions above.
\<close>

fun first_match :: "(('a \<Rightarrow> bool) \<times> 'b) list \<Rightarrow> 'a \<Rightarrow> 'b option" where
  \<comment> \<open>an ordered decision list: the outcome of the first rule whose predicate holds\<close>
  "first_match [] x = None"
| "first_match ((p, v) # rules) x = (if p x then Some v else first_match rules x)"

definition decision_list :: "((int \<times> int \<times> int \<times> int \<Rightarrow> bool) \<times> string) list" where
  \<comment> \<open>the nine rules of section 4.2 of the specification, over
      (temperature, humidity, precipitation chance, wind)\<close>
  "decision_list =
     [(\<lambda>(t, h, p, w). p > 60 \<and> w > 25, ''storm''),
      (\<lambda>(t, h, p, w). p > 60 \<and> w \<le> 25, ''rain''),
      (\<lambda>(t, h, p, w). p > 25 \<and> h > 60, ''rain''),
      (\<lambda>(t, h, p, w). p > 25 \<and> h \<le> 60, ''partly''),
      (\<lambda>(t, h, p, w). t \<le> 5, ''snow''),
      (\<lambda>(t, h, p, w). h > 80 \<and> t < 20, ''mist''),
      (\<lambda>(t, h, p, w). t \<ge> 30, ''clear''),
      (\<lambda>(t, h, p, w). t \<ge> 22, ''partly''),
      (\<lambda>(t, h, p, w). True, ''cloudy'')]"

definition clock12_label :: "nat \<Rightarrow> string" where
  \<comment> \<open>the 12-hour clock time of hour \<open>h\<close> of the day (0 to 23), without a leading zero,
      with its AM or PM suffix\<close>
  "clock12_label h =
     str_nat (if h mod 12 = 0 then 12 else h mod 12) @ '' ''
       @ (if h mod 24 < 12 then ''AM'' else ''PM'')"

definition fired_weights :: "weather \<Rightarrow> int list" where
  \<comment> \<open>the weights of the rules that fire on a reading, in the order of the source: the band
      whose test succeeds first (lines 218, 225, 231, and the final branch of line 237), then
      the modifiers for precipitation, humidity and wind\<close>
  "fired_weights w =
     [if temp_c w \<ge> 30 \<and> humidity w \<ge> 65 then 2
      else if 22 \<le> temp_c w \<and> temp_c w < 30 then 2
      else if 18 \<le> temp_c w \<and> temp_c w < 22 then 2
      else 3]
     @ (if precip_chance w > 40 then [2] else [])
     @ (if humidity w > 70 then [1] else [])
     @ (if wind_kmh w > 30 then [1] else [])"

definition big_endian :: "string \<Rightarrow> int" where
  \<comment> \<open>the unsigned integer a sequence of bytes denotes, most significant byte first\<close>
  "big_endian bytes = foldl (\<lambda>acc b. 256 * acc + int (of_char b)) 0 bytes"

definition humidity_note_only :: "weather \<Rightarrow> engine_state \<Rightarrow> engine_state" where
  \<comment> \<open>the humidity modifier of lines 255-259 without the rewrite of line 258: the weight
      and the note only\<close>
  "humidity_note_only w s =
     (let hum = humidity w in
      if hum > 70 then
        s\<lparr>v_matches := v_matches s + 1,
          v_reasons := v_reasons s @ [''High humidity ('' @ str_int hum @ ''%) '' @ arrow
                         @ '' prefer breathable fabrics and avoid heavy layers'']\<rparr>
      else s)"

definition outfit_logic_without_rewrite :: "weather \<Rightarrow> recommendation" where
  \<comment> \<open>the engine with \<^const>\<open>humidity_note_only\<close> in place of \<^const>\<open>humidity_bias\<close>\<close>
  "outfit_logic_without_rewrite w =
     finish w (wind_consideration w (humidity_note_only w (rain_logic w (band_rules w))))"

definition slot_at :: "datetime \<Rightarrow> int \<Rightarrow> string \<Rightarrow> nat \<Rightarrow> hourly_slot" where
  \<comment> \<open>the slot one iteration of the loop of lines 157-182 appends for index \<open>i\<close>\<close>
  "slot_at now base_temp base_condition i =
     \<lparr>hour = lstrip_chars ''0'' (strftime_I_p (add_hours now i)),
      temp = base_temp + ((int i + base_temp mod 7) mod 7) - 3,
      emoji = (case pick_emoji base_condition (base_temp mod 7) (int i) of
                 Inl e \<Rightarrow> [] | Inr em \<Rightarrow> em)\<rparr>"

definition chennai :: string where
  \<comment> \<open>line 56: the entry of \<^verbatim>\<open>CAPITALS\<close> for Tamil Nadu\<close>
  "chennai = ''Tamil Nadu '' @ emdash @ '' Chennai''"

definition chennai_digest :: string where
  \<comment> \<open>the 32 bytes of the SHA-256 digest of the UTF-8 bytes of \<^const>\<open>chennai\<close>\<close>
  "chennai_digest =
     [CHR 0xDC, CHR 0x56, CHR 0x76, CHR 0x2C, CHR 0xA1, CHR 0x52, CHR 0x6E, CHR 0x9F,
      CHR 0x12, CHR 0x37, CHR 0x25, CHR 0x15, CHR 0x2C, CHR 0xF1, CHR 0x8A, CHR 0x57,
      CHR 0xD4, CHR 0xEE, CHR 0xC4, CHR 0xAF, CHR 0x21, CHR 0x17, CHR 0x44, CHR 0xF1,
      CHR 0x62, CHR 0x4C, CHR 0xAA, CHR 0xC8, CHR 0xD0, CHR 0x4E, CHR 0x3F, CHR 0x6B]"

definition chennai_reading :: weather where
  \<comment> \<open>the reading of the seed 3696653868 (hexadecimal dc56762c)\<close>
  "chennai_reading =
     \<lparr>temp_c = 36, humidity = 60, precip_chance = 33, wind_kmh = 10, condition = ''partly''\<rparr>"

definition reading_35_70 :: weather where
  \<comment> \<open>the reading of the specification's scenario\<close>
  "reading_35_70 =
     \<lparr>temp_c = 35, humidity = 70, precip_chance = 10, wind_kmh = 10, condition = ''clear''\<rparr>"

definition seed0_reading :: weather where
  \<comment> \<open>the reading of the seed 0\<close>
  "seed0_reading =
     \<lparr>temp_c = 12, humidity = 30, precip_chance = 0, wind_kmh = 5, condition = ''cloudy''\<rparr>"

section \<open>Weather synthesizer: ranges and condition\<close>

lemma weather_of_seed_fields:
  "temp_c (weather_of_seed seed) = 12 + seed mod 26"
  "humidity (weather_of_seed seed) = 30 + (seed div 2 ^ 3) mod 71"
  "precip_chance (weather_of_seed seed) = (seed div 2 ^ 6) mod 101"
  "wind_kmh (weather_of_seed seed) = 5 + (seed div 2 ^ 10) mod 36"
  "condition (weather_of_seed seed) =
     select_condition (temp_c (weather_of_seed seed)) (humidity (weather_of_seed seed))
       (precip_chance (weather_of_seed seed)) (wind_kmh (weather_of_seed seed))"
  by (simp_all add: weather_of_seed_def Let_def drop_bit_eq_div)

text \<open>
  C4. For every seed (every integer, so every unsigned 32-bit one), each numeric field of the
  synthesized reading is given by its shift-and-modulo formula, the right shift by \<open>k\<close> being
  the division by \<open>2 ^ k\<close>, and lies in its range: temperature in 12..37, humidity in
  30..100, precipitation chance in 0..100, wind in 5..40.
\<close>

theorem synthesized_fields_in_range:
  "temp_c (weather_of_seed seed) = 12 + seed mod 26
   \<and> humidity (weather_of_seed seed) = 30 + (seed div 2 ^ 3) mod 71
   \<and> precip_chance (weather_of_seed seed) = (seed div 2 ^ 6) mod 101
   \<and> wind_kmh (weather_of_seed seed) = 5 + (seed div 2 ^ 10) mod 36
   \<and> 12 \<le> temp_c (weather_of_seed seed) \<and> temp_c (weather_of_seed seed) \<le> 37
   \<and> 30 \<le> humidity (weather_of_seed seed) \<and> humidity (weather_of_seed seed) \<le> 100
   \<and> 0 \<le> precip_chance (weather_of_seed seed) \<and> precip_chance (weather_of_seed seed) \<le> 100
   \<and> 5 \<le> wind_kmh (weather_of_seed seed) \<and> wind_kmh (weather_of_seed seed) \<le> 40"
proof -
  have t: "0 \<le> seed mod 26 \<and> seed mod 26 < 26" by simp
  have h: "0 \<le> (seed div 2 ^ 3) mod 71 \<and> (seed div 2 ^ 3) mod 71 < 71" by simp
  have p: "0 \<le> (seed div 2 ^ 6) mod 101 \<and> (seed div 2 ^ 6) mod 101 < 101" by simp
  have w: "0 \<le> (seed div 2 ^ 10) mod 36 \<and> (seed div 2 ^ 10) mod 36 < 36" by simp
  show ?thesis
    unfolding weather_of_seed_fields using t h p w by linarith
qed

text \<open>
  C3. For every combination of temperature, humidity, precipitation chance and wind, the
  condition chain of the synthesizer yields the outcome of the first matching rule of the
  nine-rule decision list of section 4.2; the list always has a matching rule, so one
  condition, among the seven names, is produced. The condition stored in a synthesized
  reading is that outcome for the reading's own four fields.
\<close>

theorem condition_is_first_match:
  "first_match decision_list (t, h, p, w) = Some (select_condition t h p w)
   \<and> select_condition t h p w
       \<in> {''clear'', ''partly'', ''cloudy'', ''rain'', ''storm'', ''snow'', ''mist''}
   \<and> first_match decision_list
        (temp_c (weather_of_seed seed), humidity (weather_of_seed seed),
         precip_chance (weather_of_seed seed), wind_kmh (weather_of_seed seed))
      = Some (condition (weather_of_seed seed))"
proof -
  have a: "first_match decision_list (t, h, p, w) = Some (select_condition t h p w)" for t h p w
    by (simp add: decision_list_def select_condition_def)
  have b: "select_condition t h p w
             \<in> {''clear'', ''partly'', ''cloudy'', ''rain'', ''storm'', ''snow'', ''mist''}"
    by (simp add: select_condition_def)
  show ?thesis
    using a b weather_of_seed_fields(5) [of seed] by simp
qed

text \<open>
  C9. For every seed the synthesized condition is never snow: the snow branch needs a
  temperature of at most 5, and the synthesized temperature is at least 12.
\<close>

theorem synthesizer_never_snow:
  "condition (weather_of_seed seed) \<noteq> ''snow'' \<and> \<not> temp_c (weather_of_seed seed) \<le> 5"
proof -
  have t: "0 \<le> seed mod 26" by simp
  then have "\<not> temp_c (weather_of_seed seed) \<le> 5"
    unfolding weather_of_seed_fields by linarith
  then show ?thesis
    unfolding weather_of_seed_fields(5) [of seed]
    by (simp add: select_condition_def)
qed

section \<open>Outfit rule engine\<close>

subsection \<open>What each step does to the match counter and to the primary outfit\<close>

lemma band_rules_matches:
  "v_matches (band_rules w) =
     (if temp_c w \<ge> 30 \<and> humidity w \<ge> 65 then 2
      else if 22 \<le> temp_c w \<and> temp_c w < 30 then 2
      else if 18 \<le> temp_c w \<and> temp_c w < 22 then 2
      else 3)"
  by (simp add: band_rules_def Let_def)

lemma rain_logic_matches:
  "v_matches (rain_logic w s) = v_matches s + (if precip_chance w > 40 then 2 else 0)"
  by (simp add: rain_logic_def Let_def)

lemma humidity_bias_matches:
  "v_matches (humidity_bias w s) = v_matches s + (if humidity w > 70 then 1 else 0)"
  by (simp add: humidity_bias_def Let_def)

lemma wind_consideration_matches:
  "v_matches (wind_consideration w s) = v_matches s + (if wind_kmh w > 30 then 1 else 0)"
  by (simp add: wind_consideration_def Let_def)

lemma finish_fields:
  "primary (finish w s) = v_primary s"
  "alternates (finish w s) =
     [ensure_variation (v_primary s) (v_alt1 s), ensure_variation (v_primary s) (v_alt2 s)]"
  "confidence (finish w s) = confidence_score (temp_c w) (v_matches s)"
  "bullets (finish w s) = v_reasons s"
  by (simp_all add: finish_def Let_def)

lemma final_matches:
  "v_matches (wind_consideration w (humidity_bias w (rain_logic w (band_rules w))))
     = sum_list (fired_weights w)"
  unfolding wind_consideration_matches humidity_bias_matches rain_logic_matches
    band_rules_matches fired_weights_def
  by simp

lemma band_rules_top:
  "top_wear (v_primary (band_rules w))
     \<in> {''Breathable cotton t-shirt'', ''Light long-sleeve tee'', ''Long-sleeve shirt'',
        ''Thermal top''}"
  by (simp add: band_rules_def Let_def outfit_def)

lemma no_wool_in_band_tops:
  "\<not> contains ''Wool'' ''Breathable cotton t-shirt''"
  "\<not> contains ''Wool'' ''Light long-sleeve tee''"
  "\<not> contains ''Wool'' ''Long-sleeve shirt''"
  "\<not> contains ''Wool'' ''Thermal top''"
  by (simp_all add: startswith_def)

lemma band_rules_no_wool: "\<not> contains ''Wool'' (top_wear (v_primary (band_rules w)))"
  using band_rules_top [of w] no_wool_in_band_tops by auto

lemma rain_logic_top: "top_wear (v_primary (rain_logic w s)) = top_wear (v_primary s)"
  by (simp add: rain_logic_def Let_def)

lemma wind_consideration_primary: "v_primary (wind_consideration w s) = v_primary s"
  by (simp add: wind_consideration_def Let_def)

lemma humidity_bias_without_wool:
  "\<not> contains ''Wool'' (top_wear (v_primary s)) \<Longrightarrow> humidity_bias w s = humidity_note_only w s"
  by (simp add: humidity_bias_def humidity_note_only_def Let_def)

lemma humidity_note_only_primary: "v_primary (humidity_note_only w s) = v_primary s"
  by (simp add: humidity_note_only_def Let_def)

lemma ensure_variation_differs:
  "\<not> (footwear (ensure_variation base alt) = footwear base
      \<and> accessories (ensure_variation base alt) = accessories base)"
  by (auto simp add: ensure_variation_def)

lemma str_int_values:
  "str_int 35 = ''35''" "str_int 36 = ''36''" "str_int 70 = ''70''" "str_int 12 = ''12''"
  by (simp_all add: str_int_def str_nat.simps digit_char_def)

lemma band_rules_cold_iff:
  "v_primary (band_rules w)
     = outfit ''Thermal top'' ''Warm trousers'' ''Warm coat'' ''Boots'' ''Scarf & gloves''
   \<longleftrightarrow> temp_c w < 18 \<or> (temp_c w \<ge> 30 \<and> humidity w < 65)"
  by (auto simp add: band_rules_def Let_def outfit_def)

subsection \<open>Band selection\<close>

text \<open>
  C1. The cold band, with weight 3, is meant for temperatures below 18 (the comment of line
  238 says so). The reading of the seed of \<^const>\<open>chennai\<close>, 36 degrees at 60 percent
  humidity, is not below 18 and fails the tests of the three upper bands, so the final branch
  gives it the cold band: weight 3, the thermal top with the warm coat, and the note
  "Cold temperature (36 ...)".
\<close>

theorem hot_dry_reading_gets_cold_band:
  "weather_of_seed 3696653868 = chennai_reading
   \<and> \<not> temp_c chennai_reading < 18
   \<and> v_matches (band_rules chennai_reading) = 3
   \<and> primary (outfit_logic_from_weather chennai_reading)
       = outfit ''Thermal top'' ''Warm trousers'' ''Warm coat'' ''Boots'' ''Scarf & gloves''
   \<and> bullets (outfit_logic_from_weather chennai_reading)
       = [''Cold temperature (36 '' @ deg @ ''C) '' @ arrow @ '' warm outerwear recommended'']
   \<and> confidence (outfit_logic_from_weather chennai_reading) = 84"
proof -
  have seed: "weather_of_seed 3696653868 = chennai_reading"
    by (simp add: weather_of_seed_def chennai_reading_def select_condition_def Let_def
        drop_bit_eq_div)
  have rest: "\<not> temp_c chennai_reading < 18
   \<and> v_matches (band_rules chennai_reading) = 3
   \<and> primary (outfit_logic_from_weather chennai_reading)
       = outfit ''Thermal top'' ''Warm trousers'' ''Warm coat'' ''Boots'' ''Scarf & gloves''
   \<and> bullets (outfit_logic_from_weather chennai_reading)
       = [''Cold temperature (36 '' @ deg @ ''C) '' @ arrow @ '' warm outerwear recommended'']
   \<and> confidence (outfit_logic_from_weather chennai_reading) = 84"
    by (simp add: outfit_logic_from_weather_def finish_fields chennai_reading_def band_rules_def
      rain_logic_def humidity_bias_def wind_consideration_def confidence_score_def Let_def
      str_int_values)
  show ?thesis using seed rest by simp
qed

subsection \<open>The scenario at 35 degrees and 70 percent humidity\<close>

text \<open>
  C2, as stated, fails: on the reading temperature 35, humidity 70, precipitation chance 10,
  wind 10 it is not the case that the humidity modifier changes the state and the confidence
  is 84.
\<close>

theorem scenario_35_70_counterexample:
  "\<not> (humidity_bias reading_35_70 (rain_logic reading_35_70 (band_rules reading_35_70))
        \<noteq> rain_logic reading_35_70 (band_rules reading_35_70)
      \<and> confidence (outfit_logic_from_weather reading_35_70) = 84)"
  by (simp add: outfit_logic_from_weather_def finish_fields reading_35_70_def band_rules_def
      rain_logic_def humidity_bias_def wind_consideration_def confidence_score_def Let_def)

text \<open>
  C2, amended. On that reading the engine selects the hot-humid band; the humidity modifier
  does not fire, since it needs a humidity above 70; the band's note is the only note, the
  fired weights sum to 2, the top is unchanged, and the confidence is 72, that is
  \<open>min 100 (40 + 12 * 2) = 64\<close> plus the bonus of 8 for a temperature of at least 30.
\<close>

theorem scenario_35_70:
  "v_primary (band_rules reading_35_70)
     = outfit ''Breathable cotton t-shirt'' ''Light cotton shorts'' ''None'' ''Sandals'' ''Cap''
   \<and> \<not> humidity reading_35_70 > 70
   \<and> humidity_bias reading_35_70 (rain_logic reading_35_70 (band_rules reading_35_70))
       = rain_logic reading_35_70 (band_rules reading_35_70)
   \<and> bullets (outfit_logic_from_weather reading_35_70)
       = [''High temperature (35 '' @ deg @ ''C) and humidity (70%) '' @ arrow
          @ '' breathable fabrics'']
   \<and> sum_list (fired_weights reading_35_70) = 2
   \<and> top_wear (primary (outfit_logic_from_weather reading_35_70)) = ''Breathable cotton t-shirt''
   \<and> confidence (outfit_logic_from_weather reading_35_70) = 72"
  by (simp add: outfit_logic_from_weather_def finish_fields reading_35_70_def band_rules_def
      rain_logic_def humidity_bias_def wind_consideration_def confidence_score_def Let_def
      fired_weights_def str_int_values outfit_def)

subsection \<open>Confidence\<close>

text \<open>
  C5. For every reading the returned confidence is \<open>min 100 (40 + 12 * W)\<close>, where \<open>W\<close> is
  the sum of the weights of the rules that fired, with 8 more, capped at 100, exactly when
  the temperature is at least 30 or below 18; so the confidence lies between 0 and 100.
\<close>

theorem confidence_formula:
  "confidence (outfit_logic_from_weather w) =
     (if temp_c w \<ge> 30 \<or> temp_c w < 18
      then min 100 (min 100 (40 + 12 * sum_list (fired_weights w)) + 8)
      else min 100 (40 + 12 * sum_list (fired_weights w)))
   \<and> 0 \<le> confidence (outfit_logic_from_weather w)
   \<and> confidence (outfit_logic_from_weather w) \<le> 100"
proof -
  let ?W = "sum_list (fired_weights w)"
  have c: "confidence (outfit_logic_from_weather w) = confidence_score (temp_c w) ?W"
    by (simp only: outfit_logic_from_weather_def finish_fields final_matches)
  have pos: "2 \<le> ?W"
    by (simp add: fired_weights_def)
  have eq: "confidence_score (temp_c w) ?W =
     (if temp_c w \<ge> 30 \<or> temp_c w < 18
      then min 100 (min 100 (40 + 12 * ?W) + 8)
      else min 100 (40 + 12 * ?W))"
    by (simp add: confidence_score_def Let_def mult.commute)
  have lo: "0 \<le> confidence_score (temp_c w) ?W"
    using pos by (simp add: confidence_score_def Let_def)
  have hi: "confidence_score (temp_c w) ?W \<le> 100"
    by (simp add: confidence_score_def Let_def)
  show ?thesis
    unfolding c using eq lo hi by simp
qed

subsection \<open>Alternates\<close>

text \<open>
  C6. For every reading the engine returns two alternates, and neither has both the footwear
  and the accessories of the primary outfit. The variation check guarantees it for any pair
  of outfits: its result never agrees with the base on both fields, and when its arguments
  agree on both, the result is the alternate with " (alt)" appended to its footwear.
\<close>

theorem alternates_differ_from_primary:
  "length (alternates (outfit_logic_from_weather w)) = 2
   \<and> list_all
       (\<lambda>alt. \<not> (footwear alt = footwear (primary (outfit_logic_from_weather w))
                 \<and> accessories alt = accessories (primary (outfit_logic_from_weather w))))
       (alternates (outfit_logic_from_weather w))
   \<and> \<not> (footwear (ensure_variation base alt) = footwear base
         \<and> accessories (ensure_variation base alt) = accessories base)
   \<and> (footwear base = footwear alt \<and> accessories base = accessories alt
        \<longrightarrow> ensure_variation base alt = alt\<lparr>footwear := footwear alt @ '' (alt)''\<rparr>)"
proof -
  have mech: "footwear base = footwear alt \<and> accessories base = accessories alt
        \<longrightarrow> ensure_variation base alt = alt\<lparr>footwear := footwear alt @ '' (alt)''\<rparr>"
    by (simp add: ensure_variation_def)
  show ?thesis
    unfolding outfit_logic_from_weather_def finish_fields
    using ensure_variation_differs mech by simp
qed

theorem alternates_differ_from_primary_witness:
  "ensure_variation (outfit ''Thermal top'' ''Jeans'' ''None'' ''Boots'' ''Scarf'')
       (outfit ''Sweater'' ''Chinos'' ''Overcoat'' ''Boots'' ''Scarf'')
     = outfit ''Sweater'' ''Chinos'' ''Overcoat'' ''Boots (alt)'' ''Scarf''
   \<and> length (alternates (outfit_logic_from_weather seed0_reading)) = 2"
  using alternates_differ_from_primary
    [of seed0_reading "outfit ''Thermal top'' ''Jeans'' ''None'' ''Boots'' ''Scarf''"
        "outfit ''Sweater'' ''Chinos'' ''Overcoat'' ''Boots'' ''Scarf''"]
  by (simp add: outfit_def)

subsection \<open>The wool rewrite\<close>

text \<open>
  C10. For every reading the top of the returned primary outfit is the top the selected band
  gave it, one of the four fixed descriptions, none of which contains "Wool"; so the rewrite
  of the humidity modifier never applies, and the engine returns what it would return with
  the rewrite left out, the modifier adding its weight and its note only.
\<close>

theorem wool_rewrite_never_changes_top:
  "outfit_logic_from_weather w = outfit_logic_without_rewrite w
   \<and> top_wear (primary (outfit_logic_from_weather w)) = top_wear (v_primary (band_rules w))
   \<and> top_wear (primary (outfit_logic_from_weather w))
       \<in> {''Breathable cotton t-shirt'', ''Light long-sleeve tee'', ''Long-sleeve shirt'',
          ''Thermal top''}
   \<and> \<not> contains ''Wool'' (top_wear (v_primary (band_rules w)))"
proof -
  have nw: "\<not> contains ''Wool'' (top_wear (v_primary (rain_logic w (band_rules w))))"
    unfolding rain_logic_top by (rule band_rules_no_wool)
  have same: "humidity_bias w (rain_logic w (band_rules w))
                = humidity_note_only w (rain_logic w (band_rules w))"
    using nw by (rule humidity_bias_without_wool)
  have eq: "outfit_logic_from_weather w = outfit_logic_without_rewrite w"
    unfolding outfit_logic_from_weather_def outfit_logic_without_rewrite_def same ..
  have top: "top_wear (primary (outfit_logic_from_weather w))
               = top_wear (v_primary (band_rules w))"
    unfolding eq outfit_logic_without_rewrite_def finish_fields wind_consideration_primary
      humidity_note_only_primary rain_logic_top ..
  show ?thesis
    using eq top band_rules_top [of w] band_rules_no_wool [of w] by simp
qed

section \<open>Hourly forecast generator\<close>

lemma pick_emoji_Inr:
  "pick_emoji bc off i = Inr (case pick_emoji bc off i of Inl e \<Rightarrow> [] | Inr em \<Rightarrow> em)"
  by (simp add: pick_emoji_def subscript_def WEATHER_EMOJI_def Let_def)

lemma hourly_loop_appends:
  "hourly_loop now bt bc (bt mod 7) idxs acc = Inr (acc @ map (slot_at now bt bc) idxs)"
proof (induction idxs arbitrary: acc)
  case Nil
  show ?case by simp
next
  case (Cons i rest)
  have "hourly_loop now bt bc (bt mod 7) (i # rest) acc
          = hourly_loop now bt bc (bt mod 7) rest (acc @ [slot_at now bt bc i])"
    using pick_emoji_Inr [of bc "bt mod 7" "int i"]
    by (simp add: Let_def slot_at_def split: sum.splits)
  then show ?case
    using Cons.IH [of "acc @ [slot_at now bt bc i]"] by simp
qed

lemma generate_hourly_forecast_slots:
  "generate_hourly_forecast now bt bc = Inr (map (slot_at now bt bc) [0 ..< 6])"
  by (simp add: generate_hourly_forecast_def Let_def hourly_loop_appends)

lemma lstrip_zero_pad2:
  assumes "1 \<le> h12" "h12 \<le> 12"
  shows "lstrip_chars ''0'' (zero_pad2 h12 @ CHR '' '' # rest) = str_nat h12 @ CHR '' '' # rest"
proof -
  from assms have "h12 \<in> {1, 2, 3, 4, 5, 6, 7, 8, 9, 10, 11, 12}"
    by (simp; arith)
  then show ?thesis
    by (elim insertE emptyE)
      (simp_all add: lstrip_chars_def zero_pad2_def str_nat.simps digit_char_def)
qed

lemma hour_label:
  "lstrip_chars ''0'' (strftime_I_p t) = clock12_label (hour_of t)"
proof -
  let ?h = "hour_of t"
  let ?h12 = "if ?h mod 12 = 0 then 12 else ?h mod 12"
  have h24: "?h < 24" by (simp add: hour_of_def)
  have r: "1 \<le> ?h12" "?h12 \<le> 12"
    by (simp_all add: Suc_leI less_imp_le_nat)
  have "lstrip_chars ''0'' (zero_pad2 ?h12 @ CHR '' '' # (if ?h < 12 then ''AM'' else ''PM''))
          = str_nat ?h12 @ CHR '' '' # (if ?h < 12 then ''AM'' else ''PM'')"
    using r by (rule lstrip_zero_pad2)
  then show ?thesis
    using h24 by (simp add: strftime_I_p_def clock12_label_def Let_def)
qed

lemma hour_of_add_hours: "hour_of (add_hours now i) = (hour_of now + i) mod 24"
proof -
  have "(now + i * 3600000000) div 3600000000 = now div 3600000000 + i"
    by simp
  then have "hour_of (add_hours now i) = (now div 3600000000 + i) mod 24"
    by (simp only: hour_of_def add_hours_def)
  also have "\<dots> = (now div 3600000000 mod 24 + i) mod 24"
    by (simp only: mod_add_left_eq)
  finally show ?thesis
    by (simp only: hour_of_def)
qed

lemma slot_at_fields:
  "hour (slot_at now bt bc i) = clock12_label (hour_of (add_hours now i))"
  "temp (slot_at now bt bc i) = bt + ((int i + bt mod 7) mod 7) - 3"
  by (simp_all add: slot_at_def hour_label)

lemma slot_at_swing:
  "bt - 3 \<le> temp (slot_at now bt bc i) \<and> temp (slot_at now bt bc i) \<le> bt + 3"
proof -
  have "0 \<le> (int i + bt mod 7) mod 7 \<and> (int i + bt mod 7) mod 7 < 7" by simp
  then show ?thesis unfolding slot_at_fields by linarith
qed

text \<open>
  C7. For every base temperature, base condition and clock reading the generator returns
  (without a \<^verbatim>\<open>KeyError\<close>) exactly six slots, in the order of the hour offsets 0 to 5:
  slot \<open>i\<close> carries the 12-hour clock label, without a leading zero, of the hour reached
  \<open>i\<close> hours after now, and the temperature
  \<open>base_temp + ((i + base_temp mod 7) mod 7) - 3\<close>, which is within 3 of the base
  temperature.
\<close>

theorem hourly_forecast_has_six_slots:
  "\<exists>slots. generate_hourly_forecast now base_temp base_condition = Inr slots
     \<and> length slots = 6
     \<and> map hour slots = map (\<lambda>i. clock12_label ((hour_of now + i) mod 24)) [0 ..< 6]
     \<and> map temp slots
         = map (\<lambda>i. base_temp + ((int i + base_temp mod 7) mod 7) - 3) [0 ..< 6]
     \<and> list_all (\<lambda>s. base_temp - 3 \<le> temp s \<and> temp s \<le> base_temp + 3) slots"
proof -
  let ?slots = "map (slot_at now base_temp base_condition) [0 ..< 6]"
  have a: "generate_hourly_forecast now base_temp base_condition = Inr ?slots"
    by (rule generate_hourly_forecast_slots)
  have b: "length ?slots = 6" by simp
  have c: "map hour ?slots = map (\<lambda>i. clock12_label ((hour_of now + i) mod 24)) [0 ..< 6]"
    by (simp only: map_map o_def slot_at_fields hour_of_add_hours)
  have d: "map temp ?slots
         = map (\<lambda>i. base_temp + ((int i + base_temp mod 7) mod 7) - 3) [0 ..< 6]"
    by (simp only: map_map o_def slot_at_fields)
  have e: "list_all (\<lambda>s. base_temp - 3 \<le> temp s \<and> temp s \<le> base_temp + 3) ?slots"
    unfolding list_all_iff using slot_at_swing by auto
  show ?thesis using a b c d e by blast
qed

section \<open>Seed deriver\<close>

lemma hex_value_hex_char:
  assumes "d < 16"
  shows "hex_value (hex_char d) = Some d"
proof -
  from assms have "d \<in> {0, 1, 2, 3, 4, 5, 6, 7, 8, 9, 10, 11, 12, 13, 14, 15}"
    by (simp; arith)
  then show ?thesis
    by (elim insertE emptyE) (simp_all add: hex_value_def hex_char_def Let_def)
qed

lemma of_char_nibbles:
  "(of_char b :: nat) div 16 < 16" "(of_char b :: nat) mod 16 < 16"
proof -
  have "(of_char b :: nat) < 256" by (rule nat_of_char_less_256)
  then show "(of_char b :: nat) div 16 < 16" by arith
  show "(of_char b :: nat) mod 16 < 16" by simp
qed

lemma hex_accum_byte:
  "hex_accum acc (hex_char (of_char b div 16) # hex_char (of_char b mod 16) # cs)
     = hex_accum (256 * acc + int (of_char b)) cs"
proof -
  have v: "16 * (16 * acc + int (of_char b div 16)) + int (of_char b mod 16)
          = 256 * acc + int (of_char b)"
    by (simp add: zdiv_int zmod_int)
  have "hex_accum acc (hex_char (of_char b div 16) # hex_char (of_char b mod 16) # cs)
          = hex_accum (16 * (16 * acc + int (of_char b div 16)) + int (of_char b mod 16)) cs"
    by (simp add: hex_value_hex_char of_char_nibbles)
  then show ?thesis
    by (simp only: v)
qed

lemma hex_accum_hexdigest:
  "hex_accum acc (hexdigest bytes)
     = Inr (foldl (\<lambda>a b. 256 * a + int (of_char b)) acc bytes)"
proof (induction bytes arbitrary: acc)
  case Nil
  show ?case by (simp add: hexdigest_def)
next
  case (Cons b bytes)
  have "hexdigest (b # bytes)
          = hex_char (of_char b div 16) # hex_char (of_char b mod 16) # hexdigest bytes"
    by (simp add: hexdigest_def)
  then have "hex_accum acc (hexdigest (b # bytes))
          = hex_accum (256 * acc + int (of_char b)) (hexdigest bytes)"
    by (simp only: hex_accum_byte)
  then show ?case
    by (simp add: Cons.IH)
qed

lemma take_hexdigest: "take (2 * n) (hexdigest bytes) = hexdigest (take n bytes)"
proof (induction bytes arbitrary: n)
  case Nil
  show ?case by (simp add: hexdigest_def)
next
  case (Cons b bytes)
  show ?case
  proof (cases n)
    case 0
    then show ?thesis by (simp add: hexdigest_def)
  next
    case (Suc m)
    have "hexdigest (b # bytes)
          = hex_char (of_char b div 16) # hex_char (of_char b mod 16) # hexdigest bytes"
      by (simp add: hexdigest_def)
    moreover have "hexdigest (b # take m bytes)
          = hex_char (of_char b div 16) # hex_char (of_char b mod 16) # hexdigest (take m bytes)"
      by (simp add: hexdigest_def)
    ultimately show ?thesis
      using Suc Cons.IH [of m] by simp
  qed
qed

lemma hexdigest_empty_iff: "hexdigest bytes = [] \<longleftrightarrow> bytes = []"
  by (cases bytes) (simp_all add: hexdigest_def)

lemma big_endian_bound: "0 \<le> big_endian bytes \<and> big_endian bytes < 256 ^ length bytes"
proof (induction bytes rule: rev_induct)
  case Nil
  show ?case by (simp add: big_endian_def)
next
  case (snoc b bytes)
  have b: "int (of_char b) < 256"
    using nat_of_char_less_256 [of b] by simp
  have step: "big_endian (bytes @ [b]) = 256 * big_endian bytes + int (of_char b)"
    by (simp add: big_endian_def)
  have "256 * big_endian bytes + int (of_char b) < 256 * 256 ^ length bytes"
    using snoc.IH b by linarith
  then show ?case
    using snoc.IH step by simp
qed

lemma seed_of_digest:
  assumes "c \<noteq> []" "4 \<le> length (sha256 c)"
  shows "city_to_seed sha256 (Some c) = Inr (big_endian (take 4 (sha256 c)))"
proof -
  have t: "take 8 (hexdigest (sha256 c)) = hexdigest (take 4 (sha256 c))"
    using take_hexdigest [of 4 "sha256 c"] by simp
  have ne: "hexdigest (take 4 (sha256 c)) \<noteq> []"
    using assms(2) by (auto simp add: hexdigest_empty_iff)
  have "city_to_seed sha256 (Some c) = int_base16 (take 8 (hexdigest (sha256 c)))"
    using assms(1) by (simp add: city_to_seed_def Let_def)
  also have "\<dots> = hex_accum 0 (hexdigest (take 4 (sha256 c)))"
    unfolding t using ne by (simp add: int_base16_def)
  also have "\<dots> = Inr (big_endian (take 4 (sha256 c)))"
    by (simp only: hex_accum_hexdigest big_endian_def)
  finally show ?thesis .
qed

lemma weather_of_seed_0: "weather_of_seed 0 = seed0_reading"
  by (simp add: weather_of_seed_def seed0_reading_def select_condition_def Let_def)

lemma seed0_outfit:
  "length (alternates (outfit_logic_from_weather seed0_reading)) = 2"
  "confidence (outfit_logic_from_weather seed0_reading) = 84"
  by (simp_all add: outfit_logic_from_weather_def finish_fields seed0_reading_def
      band_rules_def rain_logic_def humidity_bias_def wind_consideration_def
      confidence_score_def Let_def)

lemma forecast_of_seed:
  "city_to_seed sha256 city = Inr seed \<Longrightarrow>
     forecast sha256 now city =
       Inr (weather_of_seed seed, outfit_logic_from_weather (weather_of_seed seed),
            map (slot_at now (temp_c (weather_of_seed seed)) (condition (weather_of_seed seed)))
              [0 ..< 6])"
  by (simp add: forecast_def synthesize_weather_def generate_hourly_forecast_slots Let_def)

text \<open>
  C8. A missing city (\<open>None\<close>) and the empty string both give the seed 0, not an error,
  and the three calls of the caller then return a forecast: the reading of seed 0, whose
  fields are in their ranges, a recommendation with two alternates and a confidence between
  0 and 100, and six hourly slots. For a non-empty city whose digest has at least the four
  bytes it needs (a SHA-256 digest has 32), the seed is \<^verbatim>\<open>int(h[:8], 16)\<close> for the hex
  digest \<open>h\<close>, parsed without error from exactly 8 digits: the unsigned 32-bit integer whose
  big-endian bytes are the first four bytes of the digest.
\<close>

theorem seed_of_city:
  "city_to_seed sha256 None = Inr 0
   \<and> city_to_seed sha256 (Some []) = Inr 0
   \<and> (c \<noteq> [] \<and> 4 \<le> length (sha256 c) \<longrightarrow>
        length (take 8 (hexdigest (sha256 c))) = 8
        \<and> city_to_seed sha256 (Some c) = int_base16 (take 8 (hexdigest (sha256 c)))
        \<and> city_to_seed sha256 (Some c) = Inr (big_endian (take 4 (sha256 c)))
        \<and> 0 \<le> big_endian (take 4 (sha256 c))
        \<and> big_endian (take 4 (sha256 c)) < 2 ^ 32)
   \<and> synthesize_weather sha256 None = Inr seed0_reading
   \<and> synthesize_weather sha256 (Some []) = Inr seed0_reading
   \<and> (\<exists>hourly. forecast sha256 now None
                  = Inr (seed0_reading, outfit_logic_from_weather seed0_reading, hourly)
                \<and> length hourly = 6)
   \<and> (\<exists>hourly. forecast sha256 now (Some [])
                  = Inr (seed0_reading, outfit_logic_from_weather seed0_reading, hourly)
                \<and> length hourly = 6)
   \<and> length (alternates (outfit_logic_from_weather seed0_reading)) = 2
   \<and> 0 \<le> confidence (outfit_logic_from_weather seed0_reading)
   \<and> confidence (outfit_logic_from_weather seed0_reading) \<le> 100
   \<and> seed0_reading
       = \<lparr>temp_c = 12, humidity = 30, precip_chance = 0, wind_kmh = 5, condition = ''cloudy''\<rparr>"
proof -
  have none: "city_to_seed sha256 None = Inr 0"
    by (simp add: city_to_seed_def)
  have empty: "city_to_seed sha256 (Some []) = Inr 0"
    by (simp add: city_to_seed_def)
  have digest: "c \<noteq> [] \<and> 4 \<le> length (sha256 c) \<longrightarrow>
        length (take 8 (hexdigest (sha256 c))) = 8
        \<and> city_to_seed sha256 (Some c) = int_base16 (take 8 (hexdigest (sha256 c)))
        \<and> city_to_seed sha256 (Some c) = Inr (big_endian (take 4 (sha256 c)))
        \<and> 0 \<le> big_endian (take 4 (sha256 c))
        \<and> big_endian (take 4 (sha256 c)) < 2 ^ 32"
  proof
    assume a: "c \<noteq> [] \<and> 4 \<le> length (sha256 c)"
    have len: "length (hexdigest bytes) = 2 * length bytes" for bytes
      by (induction bytes) (simp_all add: hexdigest_def)
    have l8: "length (take 8 (hexdigest (sha256 c))) = 8"
      using a by (simp add: len)
    have raw: "city_to_seed sha256 (Some c) = int_base16 (take 8 (hexdigest (sha256 c)))"
      using a by (simp add: city_to_seed_def Let_def)
    have val: "city_to_seed sha256 (Some c) = Inr (big_endian (take 4 (sha256 c)))"
      using a by (simp add: seed_of_digest)
    have "length (take 4 (sha256 c)) = 4"
      using a by simp
    then have bound: "0 \<le> big_endian (take 4 (sha256 c))
        \<and> big_endian (take 4 (sha256 c)) < 2 ^ 32"
      using big_endian_bound [of "take 4 (sha256 c)"] by simp
    show "length (take 8 (hexdigest (sha256 c))) = 8
        \<and> city_to_seed sha256 (Some c) = int_base16 (take 8 (hexdigest (sha256 c)))
        \<and> city_to_seed sha256 (Some c) = Inr (big_endian (take 4 (sha256 c)))
        \<and> 0 \<le> big_endian (take 4 (sha256 c))
        \<and> big_endian (take 4 (sha256 c)) < 2 ^ 32"
      using l8 raw val bound by simp
  qed
  have w_none: "synthesize_weather sha256 None = Inr seed0_reading"
    by (simp add: synthesize_weather_def none weather_of_seed_0)
  have w_empty: "synthesize_weather sha256 (Some []) = Inr seed0_reading"
    by (simp add: synthesize_weather_def empty weather_of_seed_0)
  have f_none: "\<exists>hourly. forecast sha256 now None
                  = Inr (seed0_reading, outfit_logic_from_weather seed0_reading, hourly)
                \<and> length hourly = 6"
    using forecast_of_seed [OF none, of now] by (simp add: weather_of_seed_0)
  have f_empty: "\<exists>hourly. forecast sha256 now (Some [])
                  = Inr (seed0_reading, outfit_logic_from_weather seed0_reading, hourly)
                \<and> length hourly = 6"
    using forecast_of_seed [OF empty, of now] by (simp add: weather_of_seed_0)
  have conf: "0 \<le> confidence (outfit_logic_from_weather seed0_reading)"
    "confidence (outfit_logic_from_weather seed0_reading) \<le> 100"
    by (simp_all add: seed0_outfit)
  have reading: "seed0_reading
       = \<lparr>temp_c = 12, humidity = 30, precip_chance = 0, wind_kmh = 5, condition = ''cloudy''\<rparr>"
    by (simp add: seed0_reading_def)
  from none empty digest w_none w_empty f_none f_empty seed0_outfit(1) conf reading
  show ?thesis
    by (intro conjI)
qed

theorem seed_of_city_witness:
  "chennai \<noteq> [] \<and> 4 \<le> length chennai_digest
   \<and> city_to_seed (\<lambda>_. chennai_digest) (Some chennai) = Inr 3696653868"
proof -
  have hyp: "chennai \<noteq> [] \<and> 4 \<le> length ((\<lambda>_. chennai_digest) chennai)"
    by (simp add: chennai_def chennai_digest_def)
  have "city_to_seed (\<lambda>_. chennai_digest) (Some chennai)
          = Inr (big_endian (take 4 ((\<lambda>_. chennai_digest) chennai)))"
    using seed_of_city [of "\<lambda>_. chennai_digest" chennai 0] hyp by blast
  moreover have "big_endian (take 4 chennai_digest) = 3696653868"
    by (simp add: chennai_digest_def big_endian_def)
  ultimately show ?thesis
    using hyp by simp
qed

end
